theory Spec2Isabelle
  imports Complex_Main "HOL-Library.Sublist"
begin

section \<open>JavaScript values and built-ins\<close>

text \<open>
  The server is TypeScript. Every number it handles was read by \<open>JSON.parse\<close>: a finite
  double, or an infinity when the literal overflows (\<open>1e999\<close>). A finite number is kept as
  the rational it denotes; \<open>NaN\<close> is not the value of any JSON text, and \<open>-0\<close> behaves as
  \<open>0\<close> in every operation the source applies (it is falsy, prints as \<open>0\<close> and compares
  as \<open>0\<close>). The source never does arithmetic on these numbers; it compares them with the
  constants 0, 1 and 50, tests their truthiness and prints them.
\<close>

datatype number = Fin rat | Infinity | NegInfinity

instantiation number :: linorder
begin

definition less_number :: "number \<Rightarrow> number \<Rightarrow> bool" where
  "a < b \<longleftrightarrow>
     (case a of
        Fin x \<Rightarrow> (case b of Fin y \<Rightarrow> x < y | Infinity \<Rightarrow> True | NegInfinity \<Rightarrow> False)
      | Infinity \<Rightarrow> False
      | NegInfinity \<Rightarrow> (case b of NegInfinity \<Rightarrow> False | _ \<Rightarrow> True))"

definition less_eq_number :: "number \<Rightarrow> number \<Rightarrow> bool" where
  "a \<le> b \<longleftrightarrow> a < b \<or> a = (b :: number)"

instance
  by standard (auto simp: less_number_def less_eq_number_def split: number.splits)

end

text \<open>
  Values that cross an untyped boundary (the \<open>arguments\<close> of a call-tool request, the
  \<open>body\<close> handed to \<open>makeRequest\<close>, the \<open>tags\<close> of a returned item) are modelled by
  \<open>js\<close>. Strings are byte strings (UTF-8). \<open>JObj kvs\<close> is the object whose property \<open>k\<close>
  is the first entry for \<open>k\<close> in \<open>kvs\<close>.
\<close>

datatype js =
    JUndefined
  | JNull
  | JBool bool
  | JNum number
  | JStr string
  | JArr "js list"
  | JObj "(string \<times> js) list"

text \<open>Reading a property: a missing property reads as \<open>undefined\<close>.\<close>

definition get_prop :: "(string \<times> js) list \<Rightarrow> string \<Rightarrow> js" where
  "get_prop kvs k = (case map_of kvs k of None \<Rightarrow> JUndefined | Some v \<Rightarrow> v)"

text \<open>\<open>Array.prototype.join\<close> on an array of strings.\<close>

fun join :: "string \<Rightarrow> string list \<Rightarrow> string" where
  "join sep [] = []"
| "join sep [x] = x"
| "join sep (x # y # ys) = x @ sep @ join sep (y # ys)"

text \<open>
  \<open>Number.prototype.toString\<close> (also used by template literals). An integer of magnitude
  up to \<open>2^53\<close> prints as its decimal digits and the infinities print as \<open>Infinity\<close> and
  \<open>-Infinity\<close>; how the platform prints every other finite number (fractions, and the
  shortest digits that identify a larger double) is the parameter \<open>repr\<close>.
\<close>

definition digit_char :: "nat \<Rightarrow> char" where
  "digit_char d = ''0123456789'' ! d"

fun decimal :: "nat \<Rightarrow> string" where
  "decimal n = (if n < 10 then [digit_char n] else decimal (n div 10) @ [digit_char (n mod 10)])"

declare decimal.simps [simp del]

definition Number_toString :: "(rat \<Rightarrow> string) \<Rightarrow> number \<Rightarrow> string" where
  "Number_toString repr n =
     (case n of
        Fin x \<Rightarrow>
          if of_int \<lfloor>x\<rfloor> = x \<and> \<bar>x\<bar> \<le> 2 ^ 53
          then (if x < 0 then ''-'' @ decimal (nat (- \<lfloor>x\<rfloor>)) else decimal (nat \<lfloor>x\<rfloor>))
          else repr x
      | Infinity \<Rightarrow> ''Infinity''
      | NegInfinity \<Rightarrow> ''-Infinity'')"

text \<open>The operators \<open>a ?? b\<close> and \<open>a || b\<close> on an optional number: \<open>??\<close> replaces only
  \<open>undefined\<close>, \<open>||\<close> replaces every falsy value (\<open>undefined\<close> and 0).\<close>

definition nullish :: "'a option \<Rightarrow> 'a \<Rightarrow> 'a" where
  "nullish a b = (case a of None \<Rightarrow> b | Some x \<Rightarrow> x)"

definition num_or :: "number option \<Rightarrow> number \<Rightarrow> number" where
  "num_or a b = (case a of None \<Rightarrow> b | Some x \<Rightarrow> if x = Fin 0 then b else x)"

text \<open>Truthiness of a value, as \<open>body ? ... : ...\<close> tests it.\<close>

fun truthy :: "js \<Rightarrow> bool" where
  "truthy JUndefined = False"
| "truthy JNull = False"
| "truthy (JBool b) = b"
| "truthy (JNum n) = (n \<noteq> Fin 0)"
| "truthy (JStr s) = (s \<noteq> [])"
| "truthy (JArr xs) = True"
| "truthy (JObj kvs) = True"

subsection \<open>JSON.stringify\<close>

definition hex_digit :: "nat \<Rightarrow> char" where
  "hex_digit d = ''0123456789abcdef'' ! d"

definition HEX_digit :: "nat \<Rightarrow> char" where
  "HEX_digit d = ''0123456789ABCDEF'' ! d"

text \<open>One character inside a JSON string literal: the two-character escapes, \<open>\u00XX\<close> for
  the other control characters, everything else as it is.\<close>

definition quote_char :: "char \<Rightarrow> string" where
  "quote_char c =
     (if c = CHR 0x22 then [CHR 0x5C, CHR 0x22]
      else if c = CHR 0x5C then [CHR 0x5C, CHR 0x5C]
      else if c = CHR 0x08 then [CHR 0x5C, CHR ''b'']
      else if c = CHR 0x0C then [CHR 0x5C, CHR ''f'']
      else if c = CHR 0x0A then [CHR 0x5C, CHR ''n'']
      else if c = CHR 0x0D then [CHR 0x5C, CHR ''r'']
      else if c = CHR 0x09 then [CHR 0x5C, CHR ''t'']
      else if (of_char c :: nat) < 32
        then [CHR 0x5C, CHR ''u'', CHR ''0'', CHR ''0'',
              hex_digit (of_char c div 16), hex_digit (of_char c mod 16)]
      else [c])"

definition quote :: "string \<Rightarrow> string" where
  "quote s = [CHR 0x22] @ concat (map quote_char s) @ [CHR 0x22]"

text \<open>
  \<open>JSON.stringify v\<close>; \<open>None\<close> is the result \<open>undefined\<close>. A number that is not finite
  is written \<open>null\<close>. A property whose value is \<open>undefined\<close> is left out of an object; an
  \<open>undefined\<close> array element is written \<open>null\<close>.
\<close>

fun JSON_stringify :: "(rat \<Rightarrow> string) \<Rightarrow> js \<Rightarrow> string option"
  and stringify_elems :: "(rat \<Rightarrow> string) \<Rightarrow> js list \<Rightarrow> string list"
  and stringify_props :: "(rat \<Rightarrow> string) \<Rightarrow> (string \<times> js) list \<Rightarrow> string list"
where
  "JSON_stringify repr JUndefined = None"
| "JSON_stringify repr JNull = Some ''null''"
| "JSON_stringify repr (JBool b) = Some (if b then ''true'' else ''false'')"
| "JSON_stringify repr (JNum n) =
     Some (case n of Fin x \<Rightarrow> Number_toString repr n | _ \<Rightarrow> ''null'')"
| "JSON_stringify repr (JStr s) = Some (quote s)"
| "JSON_stringify repr (JArr xs) = Some (''['' @ join '','' (stringify_elems repr xs) @ '']'')"
| "JSON_stringify repr (JObj kvs) = Some (''{'' @ join '','' (stringify_props repr kvs) @ ''}'')"
| "stringify_elems repr [] = []"
| "stringify_elems repr (x # xs) =
     (case JSON_stringify repr x of None \<Rightarrow> ''null'' | Some s \<Rightarrow> s) # stringify_elems repr xs"
| "stringify_props repr [] = []"
| "stringify_props repr ((k, v) # kvs) =
     (case JSON_stringify repr v of
        None \<Rightarrow> stringify_props repr kvs
      | Some s \<Rightarrow> (quote k @ '':'' @ s) # stringify_props repr kvs)"

subsection \<open>URLSearchParams\<close>

text \<open>
  \<open>URLSearchParams.prototype.toString\<close>: the application/x-www-form-urlencoded
  serialisation of a list of name-value pairs. A byte is kept when it is an ASCII
  letter or digit or one of \<open>* - . _\<close>, a space becomes \<open>+\<close>, every other byte \<open>%XX\<close>.
\<close>

definition form_safe :: "char \<Rightarrow> bool" where
  "form_safe c = (c \<in> set
     ''ABCDEFGHIJKLMNOPQRSTUVWXYZabcdefghijklmnopqrstuvwxyz0123456789*-._'')"

definition form_encode_byte :: "char \<Rightarrow> string" where
  "form_encode_byte c =
     (if c = CHR '' '' then ''+''
      else if form_safe c then [c]
      else [CHR ''%'', HEX_digit (of_char c div 16), HEX_digit (of_char c mod 16)])"

definition form_encode :: "string \<Rightarrow> string" where
  "form_encode s = concat (map form_encode_byte s)"

definition URLSearchParams_toString :: "(string \<times> string) list \<Rightarrow> string" where
  "URLSearchParams_toString ps =
     join ''&'' (map (\<lambda>(k, v). form_encode k @ ''='' @ form_encode v) ps)"

section \<open>Argument validation (src/types/index.ts)\<close>

text \<open>
  The schemas are built with the zod library, which is not part of the repository. Each
  combinator below is the library's parser for that schema: it takes the path of the
  value and the value and returns the parsed value or the issues it raised, with the
  library's default messages. An object schema parses every field of its shape, in
  order, and raises the issues of all of them.
\<close>

datatype path_elem = Key string | Idx nat

datatype ZodIssue = ZodIssue (issue_path: "path_elem list") (issue_message: string)

datatype error = Error string | ZodError "ZodIssue list" | TypeError string

definition parsed_type :: "js \<Rightarrow> string" where
  "parsed_type v =
     (case v of
        JUndefined \<Rightarrow> ''undefined''
      | JNull \<Rightarrow> ''null''
      | JBool b \<Rightarrow> ''boolean''
      | JNum n \<Rightarrow> ''number''
      | JStr s \<Rightarrow> ''string''
      | JArr xs \<Rightarrow> ''array''
      | JObj kvs \<Rightarrow> ''object'')"

definition invalid_type :: "path_elem list \<Rightarrow> string \<Rightarrow> js \<Rightarrow> ZodIssue" where
  "invalid_type p expected v =
     ZodIssue p (if v = JUndefined then ''Required''
                 else ''Expected '' @ expected @ '', received '' @ parsed_type v)"

definition issues_of :: "ZodIssue list + 'a \<Rightarrow> ZodIssue list" where
  "issues_of r = (case r of Inl es \<Rightarrow> es | Inr x \<Rightarrow> [])"

definition z_string :: "path_elem list \<Rightarrow> js \<Rightarrow> ZodIssue list + string" where
  "z_string p v = (case v of JStr s \<Rightarrow> Inr s | _ \<Rightarrow> Inl [invalid_type p ''string'' v])"

text \<open>\<open>z.string().url()\<close>: the string must be accepted by the platform's URL parser,
  the parameter \<open>is_url\<close>.\<close>

definition z_string_url :: "(string \<Rightarrow> bool) \<Rightarrow> path_elem list \<Rightarrow> js \<Rightarrow> ZodIssue list + string" where
  "z_string_url is_url p v =
     (case z_string p v of
        Inl es \<Rightarrow> Inl es
      | Inr s \<Rightarrow> if is_url s then Inr s else Inl [ZodIssue p ''Invalid url''])"

definition check_min :: "nat \<Rightarrow> path_elem list \<Rightarrow> number \<Rightarrow> ZodIssue list" where
  "check_min m p n =
     (if n < Fin (of_nat m)
      then [ZodIssue p (''Number must be greater than or equal to '' @ decimal m)]
      else [])"

definition check_max :: "nat \<Rightarrow> path_elem list \<Rightarrow> number \<Rightarrow> ZodIssue list" where
  "check_max m p n =
     (if n > Fin (of_nat m)
      then [ZodIssue p (''Number must be less than or equal to '' @ decimal m)]
      else [])"

text \<open>\<open>z.number()\<close> followed by its checks; every check runs. The schema asks for a
  value of type number (an infinity is one) and has no \<open>.int()\<close> or \<open>.finite()\<close> check.\<close>

definition z_number :: "(path_elem list \<Rightarrow> number \<Rightarrow> ZodIssue list) list \<Rightarrow> path_elem list \<Rightarrow> js
    \<Rightarrow> ZodIssue list + number" where
  "z_number checks p v =
     (case v of
        JNum n \<Rightarrow>
          (let es = concat (map (\<lambda>c. c p n) checks) in if es = [] then Inr n else Inl es)
      | _ \<Rightarrow> Inl [invalid_type p ''number'' v])"

definition z_boolean :: "path_elem list \<Rightarrow> js \<Rightarrow> ZodIssue list + bool" where
  "z_boolean p v = (case v of JBool b \<Rightarrow> Inr b | _ \<Rightarrow> Inl [invalid_type p ''boolean'' v])"

definition sq :: string where
  "sq = [CHR 0x27]"

definition joinValues :: "string list \<Rightarrow> string" where
  "joinValues vs = join '' | '' (map (\<lambda>v. sq @ v @ sq) vs)"

definition z_enum :: "string list \<Rightarrow> path_elem list \<Rightarrow> js \<Rightarrow> ZodIssue list + string" where
  "z_enum vs p v =
     (case v of
        JStr s \<Rightarrow>
          if s \<in> set vs then Inr s
          else Inl [ZodIssue p (''Invalid enum value. Expected '' @ joinValues vs
                                 @ '', received '' @ sq @ s @ sq)]
      | _ \<Rightarrow> Inl [invalid_type p (joinValues vs) v])"

definition z_optional :: "(path_elem list \<Rightarrow> js \<Rightarrow> ZodIssue list + 'a) \<Rightarrow> path_elem list \<Rightarrow> js
    \<Rightarrow> ZodIssue list + 'a option" where
  "z_optional schema p v =
     (if v = JUndefined then Inr None
      else case schema p v of Inl es \<Rightarrow> Inl es | Inr x \<Rightarrow> Inr (Some x))"

text \<open>The results of the elements of an array: all values, or all issues.\<close>

fun collect :: "(ZodIssue list + 'a) list \<Rightarrow> ZodIssue list + 'a list" where
  "collect [] = Inr []"
| "collect (r # rs) =
     (case r of
        Inl e \<Rightarrow> (case collect rs of Inl es \<Rightarrow> Inl (e @ es) | Inr xs \<Rightarrow> Inl e)
      | Inr x \<Rightarrow> (case collect rs of Inl es \<Rightarrow> Inl es | Inr xs \<Rightarrow> Inr (x # xs)))"

definition z_array :: "(path_elem list \<Rightarrow> js \<Rightarrow> ZodIssue list + 'a) \<Rightarrow> path_elem list \<Rightarrow> js
    \<Rightarrow> ZodIssue list + 'a list" where
  "z_array schema p v =
     (case v of
        JArr xs \<Rightarrow> collect (map (\<lambda>(i, x). schema (p @ [Idx i]) x) (enumerate 0 xs))
      | _ \<Rightarrow> Inl [invalid_type p ''array'' v])"

record CreateBookmarkParams =
  create_url :: string
  create_title :: "string option"
  create_tags :: "string list option"
  create_collection :: "number option"

definition CreateBookmarkSchema :: "(string \<Rightarrow> bool) \<Rightarrow> js \<Rightarrow> ZodIssue list + CreateBookmarkParams" where
  "CreateBookmarkSchema is_url args =
     (case args of
        JObj kvs \<Rightarrow>
          (let r_url = z_string_url is_url [Key ''url''] (get_prop kvs ''url'');
               r_title = z_optional z_string [Key ''title''] (get_prop kvs ''title'');
               r_tags = z_optional (z_array z_string) [Key ''tags''] (get_prop kvs ''tags'');
               r_collection = z_optional (z_number []) [Key ''collection'']
                                (get_prop kvs ''collection'')
           in case (r_url, r_title, r_tags, r_collection) of
                (Inr u, Inr t, Inr g, Inr c) \<Rightarrow>
                  Inr \<lparr>create_url = u, create_title = t, create_tags = g,
                       create_collection = c\<rparr>
              | _ \<Rightarrow> Inl (issues_of r_url @ issues_of r_title @ issues_of r_tags
                          @ issues_of r_collection))
      | _ \<Rightarrow> Inl [invalid_type [] ''object'' args])"

definition sort_keys :: "string list" where
  "sort_keys = [''-created'', ''created'', ''-last_update'', ''last_update'',
                ''-title'', ''title'', ''-domain'', ''domain'']"

record SearchBookmarksParams =
  search_query :: string
  search_tags :: "string list option"
  search_page :: "number option"
  search_perpage :: "number option"
  search_sort :: "string option"
  search_collection :: "number option"
  search_word :: "bool option"

definition SearchBookmarksSchema :: "js \<Rightarrow> ZodIssue list + SearchBookmarksParams" where
  "SearchBookmarksSchema args =
     (case args of
        JObj kvs \<Rightarrow>
          (let r_query = z_string [Key ''query''] (get_prop kvs ''query'');
               r_tags = z_optional (z_array z_string) [Key ''tags''] (get_prop kvs ''tags'');
               r_page = z_optional (z_number [check_min 0]) [Key ''page'']
                          (get_prop kvs ''page'');
               r_perpage = z_optional (z_number [check_min 1, check_max 50]) [Key ''perpage'']
                             (get_prop kvs ''perpage'');
               r_sort = z_optional (z_enum sort_keys) [Key ''sort''] (get_prop kvs ''sort'');
               r_collection = z_optional (z_number []) [Key ''collection'']
                                (get_prop kvs ''collection'');
               r_word = z_optional z_boolean [Key ''word''] (get_prop kvs ''word'')
           in case (r_query, r_tags, r_page, r_perpage, r_sort, r_collection, r_word) of
                (Inr q, Inr g, Inr pg, Inr pp, Inr s, Inr c, Inr w) \<Rightarrow>
                  Inr \<lparr>search_query = q, search_tags = g, search_page = pg,
                       search_perpage = pp, search_sort = s, search_collection = c,
                       search_word = w\<rparr>
              | _ \<Rightarrow> Inl (issues_of r_query @ issues_of r_tags @ issues_of r_page
                          @ issues_of r_perpage @ issues_of r_sort @ issues_of r_collection
                          @ issues_of r_word))
      | _ \<Rightarrow> Inl [invalid_type [] ''object'' args])"

section \<open>The API client (src/lib/raindrop-api.ts)\<close>

text \<open>
  The response types of src/types/index.ts; \<open>CreateResponse\<close> is the type
  \<open>{ item: { link: string } }\<close> that \<open>createBookmark\<close> gives its response.
  \<open>response.json() as Promise<T>\<close> checks nothing. The formatter calls methods on the
  \<open>tags\<close> of an item, so \<open>item_tags\<close> is the value the remote service sent, whatever its
  type (\<open>JUndefined\<close> when the item has none); the declared type is \<open>string[]\<close> or nothing.
  The other fields are only printed, and are read at their declared types.
\<close>

record RaindropItem =
  item_title :: string
  item_link :: string
  item_tags :: js
  item_created :: string
  item_lastUpdate :: string

record ParentRef =
  parent_id :: number

record Collection =
  coll_id :: number
  coll_title :: string
  coll_count :: number
  coll_created :: string
  coll_parent :: "ParentRef option"

record SearchResponse =
  items :: "RaindropItem list"
  count :: number

record CollectionsResponse =
  coll_items :: "Collection list"

record CreateResponse =
  created_link :: string

record http_request =
  req_url :: string
  req_method :: string
  req_headers :: "(string \<times> string) list"
  req_body :: "string option"

text \<open>What \<open>fetch\<close> resolves to: \<open>ok\<close>, \<open>statusText\<close> and the outcome of
  \<open>response.json()\<close>, read at the type the caller casts it to.\<close>

record 'a http_response =
  ok :: bool
  statusText :: string
  json_body :: "error + 'a"

definition RAINDROP_API_BASE :: string where
  "RAINDROP_API_BASE = ''https://api.raindrop.io/rest/v1''"

text \<open>
  \<open>makeRequest\<close> calls \<open>fetch\<close> once. The list of requests sent so far is threaded through,
  so that a theorem can say how many requests a call makes. \<open>fetch\<close> itself may reject
  (\<open>Inl\<close>).
\<close>

definition makeRequest :: "(rat \<Rightarrow> string) \<Rightarrow> (http_request \<Rightarrow> error + 'a http_response) \<Rightarrow> string
    \<Rightarrow> string \<Rightarrow> string \<Rightarrow> js \<Rightarrow> http_request list \<Rightarrow> (error + 'a) \<times> http_request list" where
  "makeRequest repr fetch token endpoint meth body sent =
     (let request = \<lparr>req_url = RAINDROP_API_BASE @ endpoint, req_method = meth,
                      req_headers = [(''Authorization'', ''Bearer '' @ token),
                                     (''Content-Type'', ''application/json'')],
                      req_body = (if truthy body then JSON_stringify repr body else None)\<rparr>;
          sent' = sent @ [request]
      in case fetch request of
           Inl e \<Rightarrow> (Inl e, sent')
         | Inr response \<Rightarrow>
             if \<not> ok response
             then (Inl (Error (''Raindrop API error: '' @ statusText response)), sent')
             else (json_body response, sent'))"

definition createBookmark :: "(rat \<Rightarrow> string) \<Rightarrow> (http_request \<Rightarrow> error + CreateResponse http_response)
    \<Rightarrow> string \<Rightarrow> js \<Rightarrow> http_request list \<Rightarrow> (error + CreateResponse) \<times> http_request list" where
  "createBookmark repr fetch token params sent =
     makeRequest repr fetch token ''/raindrop'' ''POST'' params sent"

definition searchBookmarks :: "(rat \<Rightarrow> string) \<Rightarrow> (http_request \<Rightarrow> error + SearchResponse http_response)
    \<Rightarrow> string \<Rightarrow> number \<Rightarrow> (string \<times> string) list \<Rightarrow> http_request list
    \<Rightarrow> (error + SearchResponse) \<times> http_request list" where
  "searchBookmarks repr fetch token collectionId searchParams sent =
     makeRequest repr fetch token
       (''/raindrops/'' @ Number_toString repr collectionId @ ''?''
          @ URLSearchParams_toString searchParams)
       ''GET'' JUndefined sent"

definition listCollections :: "(rat \<Rightarrow> string)
    \<Rightarrow> (http_request \<Rightarrow> error + CollectionsResponse http_response)
    \<Rightarrow> string \<Rightarrow> http_request list \<Rightarrow> (error + CollectionsResponse) \<times> http_request list" where
  "listCollections repr fetch token sent =
     makeRequest repr fetch token ''/collections'' ''GET'' JUndefined sent"

section \<open>The call-tool handler (src/index.ts)\<close>

text \<open>
  The platform's built-ins the handler relies on: the URL parser behind \<open>z.string().url()\<close>,
  \<open>new Date(s).toLocaleString()\<close>, and the printing of the finite numbers that are not
  integers of magnitude up to \<open>2^53\<close>.
  The remote service is \<open>fetch\<close>, read at each of the three response types.
\<close>

record platform =
  is_url :: "string \<Rightarrow> bool"
  Date_toLocaleString :: "string \<Rightarrow> string"
  number_repr :: "rat \<Rightarrow> string"

record remote =
  fetch_create :: "http_request \<Rightarrow> error + CreateResponse http_response"
  fetch_search :: "http_request \<Rightarrow> error + SearchResponse http_response"
  fetch_collections :: "http_request \<Rightarrow> error + CollectionsResponse http_response"

definition nl :: string where
  "nl = [CHR 0x0A]"

text \<open>The object literal handed to \<open>createBookmark\<close>; an omitted title or tags is a
  property whose value is \<open>undefined\<close>.\<close>

definition bookmark_body :: "CreateBookmarkParams \<Rightarrow> js" where
  "bookmark_body p =
     JObj [(''link'', JStr (create_url p)),
           (''title'', case create_title p of None \<Rightarrow> JUndefined | Some t \<Rightarrow> JStr t),
           (''tags'', case create_tags p of None \<Rightarrow> JUndefined | Some ts \<Rightarrow> JArr (map JStr ts)),
           (''collection'', JObj [(''$id'', JNum (num_or (create_collection p) (Fin 0)))])]"

text \<open>The entries of the \<open>URLSearchParams\<close> of a search, in the order of the literal.\<close>

definition search_params :: "(rat \<Rightarrow> string) \<Rightarrow> SearchBookmarksParams \<Rightarrow> (string \<times> string) list" where
  "search_params repr p =
     [(''search'', search_query p)]
     @ (case search_tags p of None \<Rightarrow> [] | Some ts \<Rightarrow> [(''tags'', join '','' ts)])
     @ (case search_page p of None \<Rightarrow> [] | Some n \<Rightarrow> [(''page'', Number_toString repr n)])
     @ (case search_perpage p of None \<Rightarrow> [] | Some n \<Rightarrow> [(''perpage'', Number_toString repr n)])
     @ (case search_sort p of None \<Rightarrow> [] | Some s \<Rightarrow> if s = [] then [] else [(''sort'', s)])
     @ (case search_word p of None \<Rightarrow> []
        | Some w \<Rightarrow> [(''word'', if w then ''true'' else ''false'')])"

text \<open>
  Whether \<open>item.tags?.length\<close> is truthy. \<open>?.\<close> stops at \<open>undefined\<close> and \<open>null\<close>; a string
  and an array have a length, an object has one if it has the property, a number and a
  boolean have none.
\<close>

definition length_truthy :: "js \<Rightarrow> bool" where
  "length_truthy v =
     (case v of
        JUndefined \<Rightarrow> False
      | JNull \<Rightarrow> False
      | JBool b \<Rightarrow> False
      | JNum n \<Rightarrow> False
      | JStr s \<Rightarrow> s \<noteq> []
      | JArr xs \<Rightarrow> xs \<noteq> []
      | JObj kvs \<Rightarrow> truthy (get_prop kvs ''length''))"

text \<open>
  The strings that \<open>Array.prototype.join\<close> joins: \<open>undefined\<close> and \<open>null\<close> elements give
  the empty string, every other element its \<open>ToString\<close>.
\<close>

fun ToString :: "(rat \<Rightarrow> string) \<Rightarrow> js \<Rightarrow> string"
  and element_strings :: "(rat \<Rightarrow> string) \<Rightarrow> js list \<Rightarrow> string list"
where
  "ToString repr JUndefined = ''undefined''"
| "ToString repr JNull = ''null''"
| "ToString repr (JBool b) = (if b then ''true'' else ''false'')"
| "ToString repr (JNum n) = Number_toString repr n"
| "ToString repr (JStr s) = s"
| "ToString repr (JArr xs) = join '','' (element_strings repr xs)"
| "ToString repr (JObj kvs) = ''[object Object]''"
| "element_strings repr [] = []"
| "element_strings repr (x # xs) =
     (if x = JUndefined \<or> x = JNull then [] else ToString repr x) # element_strings repr xs"

text \<open>
  \<open>item.tags.join(", ")\<close>. Only an array has a \<open>join\<close> method: no value read from JSON
  is a function, so the call is a TypeError on every other value.
\<close>

definition call_join :: "(rat \<Rightarrow> string) \<Rightarrow> js \<Rightarrow> string \<Rightarrow> error + string" where
  "call_join repr v sep =
     (case v of
        JArr xs \<Rightarrow> Inr (join sep (element_strings repr xs))
      | JUndefined \<Rightarrow>
          Inl (TypeError (''Cannot read properties of undefined (reading '' @ sq @ ''join''
                          @ sq @ '')''))
      | JNull \<Rightarrow>
          Inl (TypeError (''Cannot read properties of null (reading '' @ sq @ ''join''
                          @ sq @ '')''))
      | _ \<Rightarrow> Inl (TypeError ''item.tags.join is not a function''))"

text \<open>\<open>item.tags?.length ? item.tags.join(", ") : "No tags"\<close>.\<close>

definition format_tags :: "(rat \<Rightarrow> string) \<Rightarrow> js \<Rightarrow> error + string" where
  "format_tags repr tags =
     (if length_truthy tags then call_join repr tags '', '' else Inr ''No tags'')"

definition formatItem :: "platform \<Rightarrow> RaindropItem \<Rightarrow> error + string" where
  "formatItem pf item =
     (case format_tags (number_repr pf) (item_tags item) of
        Inl e \<Rightarrow> Inl e
      | Inr tags \<Rightarrow>
          Inr (nl @ ''Title: '' @ item_title item @ nl
               @ ''URL: '' @ item_link item @ nl
               @ ''Tags: '' @ tags @ nl
               @ ''Created: '' @ Date_toLocaleString pf (item_created item) @ nl
               @ ''Last Updated: '' @ Date_toLocaleString pf (item_lastUpdate item) @ nl
               @ ''---''))"

text \<open>\<open>Array.prototype.map\<close> with a callback that may throw: the first error ends it.\<close>

fun map_throwing :: "('a \<Rightarrow> error + 'b) \<Rightarrow> 'a list \<Rightarrow> error + 'b list" where
  "map_throwing f [] = Inr []"
| "map_throwing f (x # xs) =
     (case f x of
        Inl e \<Rightarrow> Inl e
      | Inr y \<Rightarrow> (case map_throwing f xs of Inl e \<Rightarrow> Inl e | Inr ys \<Rightarrow> Inr (y # ys)))"

text \<open>\<open>page ?? 0 + 1\<close>: the addition binds tighter than \<open>??\<close>.\<close>

definition displayed_page :: "number option \<Rightarrow> number" where
  "displayed_page page = nullish page (Fin (0 + 1))"

definition search_text :: "platform \<Rightarrow> number option \<Rightarrow> SearchResponse \<Rightarrow> error + string" where
  "search_text pf page results =
     (case map_throwing (formatItem pf) (items results) of
        Inl e \<Rightarrow> Inl e
      | Inr blocks \<Rightarrow>
          Inr (if length (items results) > 0
               then ''Found '' @ Number_toString (number_repr pf) (count results)
                    @ '' total bookmarks (showing '' @ decimal (length (items results))
                    @ '' on page '' @ Number_toString (number_repr pf) (displayed_page page)
                    @ ''):'' @ nl @ join nl blocks
               else ''No bookmarks found matching your search.''))"

text \<open>\<open>item.parent?._id || "None"\<close>.\<close>

definition parent_text :: "(rat \<Rightarrow> string) \<Rightarrow> ParentRef option \<Rightarrow> string" where
  "parent_text repr parent =
     (case map_option parent_id parent of
        None \<Rightarrow> ''None''
      | Some i \<Rightarrow> if i = Fin 0 then ''None'' else Number_toString repr i)"

definition formatCollection :: "platform \<Rightarrow> Collection \<Rightarrow> string" where
  "formatCollection pf item =
     nl @ ''Name: '' @ coll_title item @ nl
     @ ''ID: '' @ Number_toString (number_repr pf) (coll_id item) @ nl
     @ ''Count: '' @ Number_toString (number_repr pf) (coll_count item) @ '' bookmarks'' @ nl
     @ ''Parent: '' @ parent_text (number_repr pf) (coll_parent item) @ nl
     @ ''Created: '' @ Date_toLocaleString pf (coll_created item) @ nl
     @ ''---''"

definition collections_text :: "platform \<Rightarrow> CollectionsResponse \<Rightarrow> string" where
  "collections_text pf collections =
     (if length (coll_items collections) > 0
      then ''Found '' @ decimal (length (coll_items collections)) @ '' collections:'' @ nl
           @ join nl (map (formatCollection pf) (coll_items collections))
      else ''No collections found.'')"

text \<open>The result of a successful call: one content entry of type text.\<close>

datatype content = TextContent string

text \<open>The body of the \<open>try\<close> block.\<close>

definition dispatch :: "platform \<Rightarrow> remote \<Rightarrow> string \<Rightarrow> string \<Rightarrow> js \<Rightarrow> http_request list
    \<Rightarrow> (error + content list) \<times> http_request list" where
  "dispatch pf rm token name args sent =
     (if name = ''create-bookmark'' then
        (case CreateBookmarkSchema (is_url pf) args of
           Inl es \<Rightarrow> (Inl (ZodError es), sent)
         | Inr p \<Rightarrow>
             (case createBookmark (number_repr pf) (fetch_create rm) token (bookmark_body p) sent of
                (Inl e, sent') \<Rightarrow> (Inl e, sent')
              | (Inr bookmark, sent') \<Rightarrow>
                  (Inr [TextContent (''Bookmark created successfully: '' @ created_link bookmark)],
                   sent')))
      else if name = ''search-bookmarks'' then
        (case SearchBookmarksSchema args of
           Inl es \<Rightarrow> (Inl (ZodError es), sent)
         | Inr p \<Rightarrow>
             (case searchBookmarks (number_repr pf) (fetch_search rm) token
                     (nullish (search_collection p) (Fin 0)) (search_params (number_repr pf) p)
                     sent of
                (Inl e, sent') \<Rightarrow> (Inl e, sent')
              | (Inr results, sent') \<Rightarrow>
                  (case search_text pf (search_page p) results of
                     Inl e \<Rightarrow> (Inl e, sent')
                   | Inr t \<Rightarrow> (Inr [TextContent t], sent'))))
      else if name = ''list-collections'' then
        (case listCollections (number_repr pf) (fetch_collections rm) token sent of
           (Inl e, sent') \<Rightarrow> (Inl e, sent')
         | (Inr collections, sent') \<Rightarrow> (Inr [TextContent (collections_text pf collections)], sent'))
      else (Inl (Error (''Unknown tool: '' @ name)), sent))"

text \<open>The \<open>catch\<close> block: a ZodError becomes one Error that lists every issue as
  \<open>path: message\<close>; any other error is thrown again.\<close>

definition path_elem_text :: "path_elem \<Rightarrow> string" where
  "path_elem_text e = (case e of Key k \<Rightarrow> k | Idx i \<Rightarrow> decimal i)"

definition format_issue :: "ZodIssue \<Rightarrow> string" where
  "format_issue e = join ''.'' (map path_elem_text (issue_path e)) @ '': '' @ issue_message e"

definition catch_block :: "error \<Rightarrow> error" where
  "catch_block e =
     (case e of
        ZodError es \<Rightarrow> Error (''Invalid arguments: '' @ join '', '' (map format_issue es))
      | _ \<Rightarrow> e)"

text \<open>The handler of a call-tool request. \<open>env\<close> is \<open>process.env.RAINDROP_TOKEN\<close> as it is
  when the request is handled; \<open>!token\<close> holds when it is unset or empty.\<close>

definition handler :: "platform \<Rightarrow> remote \<Rightarrow> string option \<Rightarrow> string \<Rightarrow> js \<Rightarrow> http_request list
    \<Rightarrow> (error + content list) \<times> http_request list" where
  "handler pf rm env name args sent =
     (case env of
        None \<Rightarrow> (Inl (Error ''RAINDROP_TOKEN is not set''), sent)
      | Some token \<Rightarrow>
          if token = [] then (Inl (Error ''RAINDROP_TOKEN is not set''), sent)
          else (case dispatch pf rm token name args sent of
                  (Inl e, sent') \<Rightarrow> (Inl (catch_block e), sent')
                | (Inr r, sent') \<Rightarrow> (Inr r, sent')))"

text \<open>
  The server answers call-tool requests one after the other; a handler that throws is
  answered with an error response and the next request is handled. Each request comes
  with the value of the token variable at that time.
\<close>

fun serve :: "platform \<Rightarrow> remote \<Rightarrow> (string option \<times> string \<times> js) list \<Rightarrow> http_request list
    \<Rightarrow> (error + content list) list \<times> http_request list" where
  "serve pf rm [] sent = ([], sent)"
| "serve pf rm ((env, name, args) # rest) sent =
     (case handler pf rm env name args sent of
        (r, sent') \<Rightarrow> (case serve pf rm rest sent' of (rs, sent'') \<Rightarrow> (r # rs, sent'')))"

section \<open>Reference values and statements of the specification\<close>

text \<open>A platform, a remote service and a response used to run the model on concrete
  requests: URLs are the strings that start with \<open>https://\<close>, dates print as they are
  stored, and every number left to the platform prints as \<open>2.5\<close>.\<close>

definition sample_platform :: platform where
  "sample_platform =
     \<lparr>is_url = (\<lambda>s. take 8 s = ''https://''),
      Date_toLocaleString = (\<lambda>s. s),
      number_repr = (\<lambda>n. ''2.5'')\<rparr>"

definition sample_item :: RaindropItem where
  "sample_item =
     \<lparr>item_title = ''Test Bookmark'', item_link = ''https://example.com'', item_tags = JUndefined,
      item_created = ''2024-03-20T00:00:00.000Z'',
      item_lastUpdate = ''2024-03-20T00:00:00.000Z''\<rparr>"

definition sample_remote :: remote where
  "sample_remote =
     \<lparr>fetch_create = (\<lambda>r. Inr \<lparr>ok = True, statusText = ''OK'',
                                  json_body = Inr \<lparr>created_link = ''https://example.com''\<rparr>\<rparr>),
      fetch_search = (\<lambda>r. Inr \<lparr>ok = True, statusText = ''OK'',
                                  json_body = Inr \<lparr>items = [sample_item], count = Fin 30\<rparr>\<rparr>),
      fetch_collections = (\<lambda>r. Inr \<lparr>ok = True, statusText = ''OK'',
                                       json_body = Inr \<lparr>coll_items = []\<rparr>\<rparr>)\<rparr>"

text \<open>A remote service that answers every request with \<open>ok: false\<close> and the status
  text \<open>X\<close>.\<close>

definition failing_fetch :: "string \<Rightarrow> http_request \<Rightarrow> error + 'a http_response" where
  "failing_fetch X request =
     Inr \<lparr>ok = False, statusText = X, json_body = Inl (Error ''unused'')\<rparr>"




definition collections_remote :: "CollectionsResponse \<Rightarrow> remote" where
  "collections_remote collections =
     sample_remote\<lparr>fetch_collections :=
       (\<lambda>r. Inr \<lparr>ok = True, statusText = ''OK'', json_body = Inr collections\<rparr>)\<rparr>"

definition sample_collection :: Collection where
  "sample_collection =
     \<lparr>coll_id = Fin 1, coll_title = ''Test Collection'', coll_count = Fin 5,
      coll_created = ''2024-03-20T00:00:00.000Z'',
      coll_parent = Some \<lparr>parent_id = Fin 0\<rparr>\<rparr>"



section \<open>Properties\<close>

lemma number_order_simps [simp]:
  "Fin x < Fin y \<longleftrightarrow> x < y"
  "Fin x \<le> Fin y \<longleftrightarrow> x \<le> y"
  "Fin x < Infinity"
  "NegInfinity < Fin x"
  "NegInfinity < Infinity"
  "\<not> Infinity < n"
  "\<not> n < NegInfinity"
  "n \<le> Infinity"
  "NegInfinity \<le> n"
  "\<not> Infinity \<le> Fin x"
  "\<not> Fin x \<le> NegInfinity"
  by (auto simp: less_number_def less_eq_number_def split: number.splits)

lemma Number_toString_0: "Number_toString repr (Fin 0) = ''0''"
  by (simp add: Number_toString_def decimal.simps digit_char_def)

lemma Number_toString_1: "Number_toString repr (Fin 1) = ''1''"
  by (simp add: Number_toString_def decimal.simps digit_char_def)

lemma Number_toString_2: "Number_toString repr (Fin 2) = ''2''"
  by (simp add: Number_toString_def decimal.simps digit_char_def)

lemma Number_toString_30: "Number_toString repr (Fin 30) = ''30''"
  by (simp add: Number_toString_def decimal.simps digit_char_def)

lemmas zod_defs = get_prop_def z_string_url_def z_string_def z_optional_def z_number_def
  z_boolean_def z_enum_def z_array_def check_min_def check_max_def invalid_type_def
  parsed_type_def issues_of_def

lemmas handler_defs = handler_def dispatch_def catch_block_def createBookmark_def
  searchBookmarks_def listCollections_def makeRequest_def


lemma collect_strings:
  "collect (map (\<lambda>(i, x). z_string (p @ [Idx i]) x) (enumerate n xs)) = Inr ts \<Longrightarrow> xs = map JStr ts"
proof (induction xs arbitrary: n ts)
  case Nil
  then show ?case by simp
next
  case (Cons x xs)
  then show ?case
    by (auto simp: z_string_def split: js.splits sum.splits)
qed

lemma z_optional_string_Inr:
  "z_optional z_string p v = Inr r \<Longrightarrow>
     (v = JUndefined \<and> r = None) \<or> (\<exists>s. v = JStr s \<and> r = Some s)"
  by (auto simp: z_optional_def z_string_def split: if_splits js.splits sum.splits)

lemma z_optional_strings_Inr:
  "z_optional (z_array z_string) p v = Inr r \<Longrightarrow>
     (v = JUndefined \<and> r = None) \<or> (\<exists>ts. v = JArr (map JStr ts) \<and> r = Some ts)"
  by (auto simp: z_optional_def z_array_def split: if_splits js.splits sum.splits
      dest: collect_strings)

lemma z_optional_number_Inr:
  "z_optional (z_number cs) p v = Inr r \<Longrightarrow>
     (v = JUndefined \<and> r = None)
     \<or> (\<exists>n. v = JNum n \<and> r = Some n \<and> concat (map (\<lambda>c. c p n) cs) = [])"
  by (auto simp: z_optional_def z_number_def Let_def split: if_splits js.splits sum.splits)

lemma z_string_url_Inr:
  "z_string_url u p v = Inr s \<Longrightarrow> v = JStr s \<and> u s"
  by (auto simp: z_string_url_def z_string_def split: if_splits js.splits sum.splits)

lemma CreateBookmarkSchema_Inr:
  assumes "CreateBookmarkSchema u (JObj kvs) = Inr p"
  shows "z_string_url u [Key ''url''] (get_prop kvs ''url'') = Inr (create_url p)"
    and "z_optional z_string [Key ''title''] (get_prop kvs ''title'') = Inr (create_title p)"
    and "z_optional (z_array z_string) [Key ''tags''] (get_prop kvs ''tags'') = Inr (create_tags p)"
    and "z_optional (z_number []) [Key ''collection''] (get_prop kvs ''collection'')
           = Inr (create_collection p)"
  using assms by (auto simp: CreateBookmarkSchema_def Let_def split: sum.splits)


lemma SearchBookmarksSchema_Inr:
  assumes "SearchBookmarksSchema (JObj kvs) = Inr p"
  shows "z_string [Key ''query''] (get_prop kvs ''query'') = Inr (search_query p)"
    and "z_optional (z_array z_string) [Key ''tags''] (get_prop kvs ''tags'') = Inr (search_tags p)"
    and "z_optional (z_number [check_min 0]) [Key ''page''] (get_prop kvs ''page'') = Inr (search_page p)"
    and "z_optional (z_number [check_min 1, check_max 50]) [Key ''perpage''] (get_prop kvs ''perpage'') = Inr (search_perpage p)"
    and "z_optional (z_enum sort_keys) [Key ''sort''] (get_prop kvs ''sort'') = Inr (search_sort p)"
    and "z_optional (z_number []) [Key ''collection''] (get_prop kvs ''collection'') = Inr (search_collection p)"
    and "z_optional z_boolean [Key ''word''] (get_prop kvs ''word'') = Inr (search_word p)"
  using assms by (auto simp: SearchBookmarksSchema_def Let_def split: sum.splits)




lemma num_or_zero: "num_or (Some c) (Fin 0) = c" "num_or None (Fin 0) = Fin 0"
  by (simp_all add: num_or_def)

lemma stringify_strings: "stringify_elems repr (map JStr ts) = map quote ts"
  by (induction ts) simp_all

lemma collection_id_text:
  "JSON_stringify repr (JNum (num_or c (Fin 0)))
     = Some (case c of
               None \<Rightarrow> ''0''
             | Some (Fin x) \<Rightarrow> Number_toString repr (Fin x)
             | Some _ \<Rightarrow> ''null'')"
proof (cases c)
  case None
  then show ?thesis by (simp add: num_or_zero Number_toString_0)
next
  case (Some n)
  then show ?thesis by (cases n) (simp_all add: num_or_zero)
qed

lemma bookmark_body_text:
  "JSON_stringify repr (bookmark_body p)
     = Some (''{\"link\":'' @ quote (create_url p)
             @ (case create_title p of None \<Rightarrow> [] | Some t \<Rightarrow> '',\"title\":'' @ quote t)
             @ (case create_tags p of
                  None \<Rightarrow> []
                | Some ts \<Rightarrow> '',\"tags\":['' @ join '','' (map quote ts) @ '']'')
             @ '',\"collection\":{\"$id\":''
             @ (case create_collection p of
                  None \<Rightarrow> ''0''
                | Some (Fin x) \<Rightarrow> Number_toString repr (Fin x)
                | Some _ \<Rightarrow> ''null'')
             @ ''}}'')"
proof -
  obtain cid where cid: "JSON_stringify repr (JNum (num_or (create_collection p) (Fin 0))) = Some cid"
    and cid_eq: "cid = (case create_collection p of
                  None \<Rightarrow> ''0''
                | Some (Fin x) \<Rightarrow> Number_toString repr (Fin x)
                | Some _ \<Rightarrow> ''null'')"
    using collection_id_text [of repr "create_collection p"] by simp
  have keys: "quote ''link'' = ''\"link\"''" "quote ''title'' = ''\"title\"''"
    "quote ''tags'' = ''\"tags\"''" "quote ''collection'' = ''\"collection\"''"
    "quote ''$id'' = ''\"$id\"''"
    by (simp_all add: quote_def quote_char_def)
  have "JSON_stringify repr (bookmark_body p)
     = Some (''{\"link\":'' @ quote (create_url p)
             @ (case create_title p of None \<Rightarrow> [] | Some t \<Rightarrow> '',\"title\":'' @ quote t)
             @ (case create_tags p of
                  None \<Rightarrow> []
                | Some ts \<Rightarrow> '',\"tags\":['' @ join '','' (map quote ts) @ '']'')
             @ '',\"collection\":{\"$id\":'' @ cid @ ''}}'')"
    using cid
    by (cases "create_title p"; cases "create_tags p")
      (simp_all add: bookmark_body_def keys stringify_strings del: JSON_stringify.simps(4))
  then show ?thesis by (simp only: cid_eq)
qed

text \<open>
  Claim C2, as amended. For valid create-bookmark arguments the handler sends one POST to
  \<open>/raindrop\<close>. The text of its body is the link, then exactly the optional fields that
  were supplied (an omitted title or tags is no property of the body, not a \<open>null\<close>), then
  the collection reference \<open>{"$id": ...}\<close>, which carries the caller's collection when it
  is a finite number, 0 when none was supplied, and \<open>null\<close> when the supplied number is
  not finite. The parsed fields are the values the caller supplied.
\<close>

theorem create_body_has_supplied_fields:
  assumes "token \<noteq> []" and "CreateBookmarkSchema (is_url pf) (JObj kvs) = Inr p"
  shows "\<exists>r request.
           handler pf rm (Some token) ''create-bookmark'' (JObj kvs) sent = (r, sent @ [request])
           \<and> req_url request = RAINDROP_API_BASE @ ''/raindrop''
           \<and> req_method request = ''POST''
           \<and> req_body request
               = Some (''{\"link\":'' @ quote (create_url p)
                       @ (case create_title p of
                            None \<Rightarrow> []
                          | Some t \<Rightarrow> '',\"title\":'' @ quote t)
                       @ (case create_tags p of
                            None \<Rightarrow> []
                          | Some ts \<Rightarrow> '',\"tags\":['' @ join '','' (map quote ts) @ '']'')
                       @ '',\"collection\":{\"$id\":''
                       @ (case create_collection p of
                            None \<Rightarrow> ''0''
                          | Some (Fin x) \<Rightarrow> Number_toString (number_repr pf) (Fin x)
                          | Some _ \<Rightarrow> ''null'')
                       @ ''}}'')
           \<and> get_prop kvs ''url'' = JStr (create_url p)
           \<and> get_prop kvs ''title''
               = (case create_title p of None \<Rightarrow> JUndefined | Some t \<Rightarrow> JStr t)
           \<and> get_prop kvs ''tags''
               = (case create_tags p of None \<Rightarrow> JUndefined | Some ts \<Rightarrow> JArr (map JStr ts))
           \<and> get_prop kvs ''collection''
               = (case create_collection p of None \<Rightarrow> JUndefined | Some c \<Rightarrow> JNum c)"
proof -
  have url: "get_prop kvs ''url'' = JStr (create_url p)"
    using CreateBookmarkSchema_Inr(1) [OF assms(2)] by (simp add: z_string_url_Inr)
  have title: "get_prop kvs ''title''
      = (case create_title p of None \<Rightarrow> JUndefined | Some t \<Rightarrow> JStr t)"
    using z_optional_string_Inr [OF CreateBookmarkSchema_Inr(2) [OF assms(2)]] by auto
  have tags: "get_prop kvs ''tags''
      = (case create_tags p of None \<Rightarrow> JUndefined | Some ts \<Rightarrow> JArr (map JStr ts))"
    using z_optional_strings_Inr [OF CreateBookmarkSchema_Inr(3) [OF assms(2)]] by auto
  have coll: "get_prop kvs ''collection''
      = (case create_collection p of None \<Rightarrow> JUndefined | Some c \<Rightarrow> JNum c)"
    using z_optional_number_Inr [OF CreateBookmarkSchema_Inr(4) [OF assms(2)]] by auto
  have obj: "truthy (bookmark_body p)"
    by (simp add: bookmark_body_def)
  have "\<exists>r request.
          handler pf rm (Some token) ''create-bookmark'' (JObj kvs) sent = (r, sent @ [request])
          \<and> req_url request = RAINDROP_API_BASE @ ''/raindrop''
          \<and> req_method request = ''POST''
          \<and> req_body request = JSON_stringify (number_repr pf) (bookmark_body p)"
    using assms obj
    by (auto simp: handler_def dispatch_def createBookmark_def makeRequest_def Let_def
        split: sum.splits prod.splits)
  then obtain r request where sent:
      "handler pf rm (Some token) ''create-bookmark'' (JObj kvs) sent = (r, sent @ [request])"
    and req: "req_url request = RAINDROP_API_BASE @ ''/raindrop''"
      "req_method request = ''POST''"
      "req_body request = JSON_stringify (number_repr pf) (bookmark_body p)"
    by blast
  from req(3) have body: "req_body request
               = Some (''{\"link\":'' @ quote (create_url p)
                       @ (case create_title p of
                            None \<Rightarrow> []
                          | Some t \<Rightarrow> '',\"title\":'' @ quote t)
                       @ (case create_tags p of
                            None \<Rightarrow> []
                          | Some ts \<Rightarrow> '',\"tags\":['' @ join '','' (map quote ts) @ '']'')
                       @ '',\"collection\":{\"$id\":''
                       @ (case create_collection p of
                            None \<Rightarrow> ''0''
                          | Some (Fin x) \<Rightarrow> Number_toString (number_repr pf) (Fin x)
                          | Some _ \<Rightarrow> ''null'')
                       @ ''}}'')"
    by (simp only: bookmark_body_text)
  show ?thesis
    using sent req(1,2) body url title tags coll by blast
qed

text \<open>
  The claim C2 as stated fails: the collection \<open>1e999\<close> is read as \<open>Infinity\<close>, passes
  validation, and is written to the body as \<open>null\<close>, not as the caller's collection id.
\<close>

theorem non_finite_collection_is_sent_as_null:
  "CreateBookmarkSchema (is_url sample_platform)
     (JObj [(''url'', JStr ''https://example.com''), (''collection'', JNum Infinity)])
     = Inr \<lparr>create_url = ''https://example.com'', create_title = None, create_tags = None,
            create_collection = Some Infinity\<rparr>
   \<and> map req_body
         (snd (handler sample_platform sample_remote (Some ''test-token'') ''create-bookmark''
                 (JObj [(''url'', JStr ''https://example.com''), (''collection'', JNum Infinity)])
                 []))
     = [Some ''{\"link\":\"https://example.com\",\"collection\":{\"$id\":null}}'']"
proof -
  have parsed: "CreateBookmarkSchema (is_url sample_platform)
     (JObj [(''url'', JStr ''https://example.com''), (''collection'', JNum Infinity)])
     = Inr \<lparr>create_url = ''https://example.com'', create_title = None, create_tags = None,
            create_collection = Some Infinity\<rparr>"
    by (simp add: CreateBookmarkSchema_def zod_defs sample_platform_def)
  show ?thesis
    by (simp add: parsed handler_defs sample_remote_def bookmark_body_def num_or_def
        quote_def quote_char_def)
qed

theorem create_body_has_supplied_fields_witness:
  "''test-token'' \<noteq> []
   \<and> CreateBookmarkSchema (is_url sample_platform)
        (JObj [(''url'', JStr ''https://example.com''), (''title'', JStr ''Say \"hi\"''),
               (''tags'', JArr [JStr ''test''])])
      = Inr \<lparr>create_url = ''https://example.com'', create_title = Some ''Say \"hi\"'',
             create_tags = Some [''test''], create_collection = None\<rparr>
   \<and> (\<exists>r request.
         handler sample_platform sample_remote (Some ''test-token'') ''create-bookmark''
           (JObj [(''url'', JStr ''https://example.com''), (''title'', JStr ''Say \"hi\"''),
                  (''tags'', JArr [JStr ''test''])]) []
           = (r, [] @ [request])
         \<and> req_url request = ''https://api.raindrop.io/rest/v1/raindrop''
         \<and> req_method request = ''POST''
         \<and> req_body request
             = Some (''{\"link\":\"https://example.com\",\"title\":\"Say ''
                     @ [CHR 0x5C] @ ''\"hi'' @ [CHR 0x5C] @ ''\"\",''
                     @ ''\"tags\":[\"test\"],\"collection\":{\"$id\":0}}''))"
proof -
  have parsed: "CreateBookmarkSchema (is_url sample_platform)
        (JObj [(''url'', JStr ''https://example.com''), (''title'', JStr ''Say \"hi\"''),
               (''tags'', JArr [JStr ''test''])])
      = Inr \<lparr>create_url = ''https://example.com'', create_title = Some ''Say \"hi\"'',
             create_tags = Some [''test''], create_collection = None\<rparr>"
    by (simp add: CreateBookmarkSchema_def zod_defs sample_platform_def)
  have tok: "''test-token'' \<noteq> []" by simp
  show ?thesis
    using create_body_has_supplied_fields [OF tok parsed, of sample_remote "[]"] parsed
    by (simp add: quote_def quote_char_def RAINDROP_API_BASE_def) blast
qed

lemma makeRequest_not_ok:
  assumes "fetch \<lparr>req_url = RAINDROP_API_BASE @ endpoint, req_method = meth,
                   req_headers = [(''Authorization'', ''Bearer '' @ token),
                                  (''Content-Type'', ''application/json'')],
                   req_body = (if truthy body then JSON_stringify repr body else None)\<rparr>
             = Inr response"
    and "\<not> ok response"
  shows "makeRequest repr fetch token endpoint meth body sent
     = (Inl (Error (''Raindrop API error: '' @ statusText response)),
        sent @ [\<lparr>req_url = RAINDROP_API_BASE @ endpoint, req_method = meth,
                   req_headers = [(''Authorization'', ''Bearer '' @ token),
                                  (''Content-Type'', ''application/json'')],
                   req_body = (if truthy body then JSON_stringify repr body else None)\<rparr>])"
  using assms by (simp add: makeRequest_def Let_def)

text \<open>
  Claim C3. When the remote service answers \<open>ok: false\<close> with status text \<open>X\<close>, each of
  \<open>createBookmark\<close>, \<open>searchBookmarks\<close> and \<open>listCollections\<close> fails with the message
  \<open>Raindrop API error: X\<close> after exactly one request: there is no retry.
\<close>

theorem not_ok_response_fails_once:
  assumes "\<forall>request. \<exists>response. fetchC request = Inr response \<and> \<not> ok response
              \<and> statusText response = X"
    and "\<forall>request. \<exists>response. fetchS request = Inr response \<and> \<not> ok response
              \<and> statusText response = X"
    and "\<forall>request. \<exists>response. fetchL request = Inr response \<and> \<not> ok response
              \<and> statusText response = X"
  shows "(\<exists>request. createBookmark repr fetchC token params sent
            = (Inl (Error (''Raindrop API error: '' @ X)), sent @ [request]))
       \<and> (\<exists>request. searchBookmarks repr fetchS token collectionId searchParams sent
            = (Inl (Error (''Raindrop API error: '' @ X)), sent @ [request]))
       \<and> (\<exists>request. listCollections repr fetchL token sent
            = (Inl (Error (''Raindrop API error: '' @ X)), sent @ [request]))"
proof -
  have one: "\<exists>request. makeRequest repr fetch token endpoint meth body sent
            = (Inl (Error (''Raindrop API error: '' @ X)), sent @ [request])"
    if "\<forall>request. \<exists>response. fetch request = Inr response \<and> \<not> ok response
              \<and> statusText response = X"
    for fetch :: "http_request \<Rightarrow> error + 'b http_response" and endpoint meth body
  proof -
    let ?request = "\<lparr>req_url = RAINDROP_API_BASE @ endpoint, req_method = meth,
                   req_headers = [(''Authorization'', ''Bearer '' @ token),
                                  (''Content-Type'', ''application/json'')],
                   req_body = (if truthy body then JSON_stringify repr body else None)\<rparr>"
    from that obtain response where "fetch ?request = Inr response" "\<not> ok response"
      "statusText response = X" by blast
    then show ?thesis
      using makeRequest_not_ok [of fetch endpoint meth token body repr response sent] by auto
  qed
  show ?thesis
    unfolding createBookmark_def searchBookmarks_def listCollections_def
    using one [OF assms(1)] one [OF assms(2)] one [OF assms(3)] by blast
qed


theorem not_ok_response_fails_once_witness:
  "(\<exists>request. createBookmark (\<lambda>n. ''2.5'') (failing_fetch ''Invalid token'') ''test-token''
        (JObj [(''link'', JStr ''https://example.com'')]) []
      = (Inl (Error ''Raindrop API error: Invalid token''), [request]))
   \<and> (\<exists>request. searchBookmarks (\<lambda>n. ''2.5'') (failing_fetch ''Invalid token'') ''test-token'' (Fin 0)
        [(''search'', ''test'')] []
      = (Inl (Error ''Raindrop API error: Invalid token''), [request]))
   \<and> (\<exists>request. listCollections (\<lambda>n. ''2.5'') (failing_fetch ''Invalid token'') ''test-token'' []
      = (Inl (Error ''Raindrop API error: Invalid token''), [request]))"
proof -
  have f: "\<forall>request. \<exists>response. failing_fetch ''Invalid token'' request = Inr response
       \<and> \<not> ok response \<and> statusText response = ''Invalid token''"
    for dummy :: "'b"
    by (simp add: failing_fetch_def)
  show ?thesis
    using not_ok_response_fails_once [OF f f f, of "\<lambda>n. ''2.5''" "''test-token''"
        "JObj [(''link'', JStr ''https://example.com'')]" "[]" "Fin 0" "[(''search'', ''test'')]"]
    by simp
qed

lemma sublist_prepend: "sublist e ys \<Longrightarrow> sublist e (ps @ ys)"
  by (simp add: sublist_append)

lemma sublist_join:
  "e \<in> set xs \<Longrightarrow> sublist e (join sep xs)"
proof (induction sep xs rule: join.induct)
  case (1 sep)
  then show ?case by simp
next
  case (2 sep x)
  then show ?case by simp
next
  case (3 sep x y ys)
  show ?case
  proof (cases "e = x")
    case True
    then show ?thesis by (simp add: sublist_append_rightI)
  next
    case False
    with 3 have "sublist e (join sep (y # ys))" by simp
    then have "sublist e ((x @ sep) @ join sep (y # ys))"
      by (rule sublist_prepend)
    then show ?thesis by simp
  qed
qed








lemma handler_without_token:
  "env = None \<or> env = Some [] \<Longrightarrow>
   handler pf rm env name args sent = (Inl (Error ''RAINDROP_TOKEN is not set''), sent)"
  by (auto simp: handler_def)


lemma concat_map_optional:
  "concat (map f (case x of None \<Rightarrow> [] | Some y \<Rightarrow> [g y]))
     = (case x of None \<Rightarrow> [] | Some y \<Rightarrow> f (g y))"
  by (cases x) simp_all














lemma check_min_empty: "check_min m p n = [] \<longleftrightarrow> Fin (of_nat m) \<le> n"
  by (auto simp: check_min_def)

lemma check_max_empty: "check_max m p n = [] \<longleftrightarrow> n \<le> Fin (of_nat m)"
  by (auto simp: check_max_def)

text \<open>
  Claim C6, as amended. Validation accepts \<open>page\<close> only when it is absent or a number
  that is at least 0, and \<open>perpage\<close> only when it is absent or a number from 1 to 50. The
  number need not be an integer: every \<open>page\<close> and \<open>perpage\<close> in these ranges is accepted.
\<close>

theorem page_and_perpage_ranges:
  "(SearchBookmarksSchema (JObj kvs) = Inr p \<longrightarrow>
      ((get_prop kvs ''page'' = JUndefined \<and> search_page p = None)
       \<or> (\<exists>n. get_prop kvs ''page'' = JNum n \<and> Fin 0 \<le> n \<and> search_page p = Some n))
      \<and> ((get_prop kvs ''perpage'' = JUndefined \<and> search_perpage p = None)
         \<or> (\<exists>n. get_prop kvs ''perpage'' = JNum n \<and> Fin 1 \<le> n \<and> n \<le> Fin 50
                 \<and> search_perpage p = Some n)))
   \<and> (Fin 0 \<le> a \<and> Fin 1 \<le> b \<and> b \<le> Fin 50 \<longrightarrow>
        SearchBookmarksSchema (JObj [(''query'', JStr q), (''page'', JNum a), (''perpage'', JNum b)])
          = Inr \<lparr>search_query = q, search_tags = None, search_page = Some a,
                 search_perpage = Some b, search_sort = None, search_collection = None,
                 search_word = None\<rparr>)"
proof (intro conjI impI)
  assume v: "SearchBookmarksSchema (JObj kvs) = Inr p"
  show "(get_prop kvs ''page'' = JUndefined \<and> search_page p = None)
       \<or> (\<exists>n. get_prop kvs ''page'' = JNum n \<and> Fin 0 \<le> n \<and> search_page p = Some n)"
    using z_optional_number_Inr [OF SearchBookmarksSchema_Inr(3) [OF v]]
    by (auto simp: check_min_empty)
  show "(get_prop kvs ''perpage'' = JUndefined \<and> search_perpage p = None)
         \<or> (\<exists>n. get_prop kvs ''perpage'' = JNum n \<and> Fin 1 \<le> n \<and> n \<le> Fin 50
                 \<and> search_perpage p = Some n)"
    using z_optional_number_Inr [OF SearchBookmarksSchema_Inr(4) [OF v]]
    by (auto simp: check_min_empty check_max_empty)
next
  assume "Fin 0 \<le> a \<and> Fin 1 \<le> b \<and> b \<le> Fin 50"
  then show "SearchBookmarksSchema (JObj [(''query'', JStr q), (''page'', JNum a), (''perpage'', JNum b)])
          = Inr \<lparr>search_query = q, search_tags = None, search_page = Some a,
                 search_perpage = Some b, search_sort = None, search_collection = None,
                 search_word = None\<rparr>"
    by (simp add: SearchBookmarksSchema_def zod_defs not_less)
qed

text \<open>
  The claim C6 as stated fails: \<open>perpage = 2.5\<close>, which is not an integer, is accepted.
\<close>

theorem fractional_perpage_is_accepted:
  "of_int \<lfloor>5 / 2 :: rat\<rfloor> \<noteq> (5 / 2 :: rat)
   \<and> SearchBookmarksSchema (JObj [(''query'', JStr ''test''), (''perpage'', JNum (Fin (5 / 2)))])
     = Inr \<lparr>search_query = ''test'', search_tags = None, search_page = None,
            search_perpage = Some (Fin (5 / 2)), search_sort = None, search_collection = None,
            search_word = None\<rparr>"
proof -
  have "\<lfloor>5 / 2 :: rat\<rfloor> = 2" by (rule floor_unique) simp_all
  then show ?thesis by (simp add: SearchBookmarksSchema_def zod_defs)
qed

theorem page_and_perpage_ranges_witness:
  "SearchBookmarksSchema (JObj [(''query'', JStr ''test''), (''page'', JNum (Fin (1 / 2))),
                                (''perpage'', JNum (Fin (5 / 2)))])
     = Inr \<lparr>search_query = ''test'', search_tags = None, search_page = Some (Fin (1 / 2)),
            search_perpage = Some (Fin (5 / 2)), search_sort = None,
            search_collection = None, search_word = None\<rparr>
   \<and> get_prop [(''query'', JStr ''test''), (''page'', JNum (Fin (1 / 2))),
                (''perpage'', JNum (Fin (5 / 2)))] ''page'' = JNum (Fin (1 / 2))
   \<and> Fin 0 \<le> Fin (1 / 2) \<and> Fin 1 \<le> Fin (5 / 2) \<and> Fin (5 / 2) \<le> Fin 50"
  using page_and_perpage_ranges [of
      "[(''query'', JStr ''test''), (''page'', JNum (Fin (1 / 2))),
        (''perpage'', JNum (Fin (5 / 2)))]"
      "\<lparr>search_query = ''test'', search_tags = None, search_page = Some (Fin (1 / 2)),
        search_perpage = Some (Fin (5 / 2)), search_sort = None, search_collection = None,
        search_word = None\<rparr>" "Fin (1 / 2)" "Fin (5 / 2)" "''test''"]
  by (simp add: get_prop_def)

lemma serve_length: "length (fst (serve pf rm reqs sent)) = length reqs"
proof (induction reqs arbitrary: sent)
  case Nil
  then show ?case by simp
next
  case (Cons req reqs)
  obtain env name args where req: "req = (env, name, args)" by (cases req) auto
  obtain r sent1 where h: "handler pf rm env name args sent = (r, sent1)"
    by (cases "handler pf rm env name args sent") auto
  obtain rs sent2 where t: "serve pf rm reqs sent1 = (rs, sent2)"
    by (cases "serve pf rm reqs sent1") auto
  from Cons.IH [of sent1] t have "length rs = length reqs" by simp
  with req h t show ?case by simp
qed

lemma serve_nth:
  "i < length reqs \<Longrightarrow>
   \<exists>sent'. fst (serve pf rm reqs sent) ! i
     = fst (handler pf rm (fst (reqs ! i)) (fst (snd (reqs ! i))) (snd (snd (reqs ! i))) sent')"
proof (induction reqs arbitrary: i sent)
  case Nil
  then show ?case by simp
next
  case (Cons req reqs)
  obtain env name args where req: "req = (env, name, args)" by (cases req) auto
  obtain r sent1 where h: "handler pf rm env name args sent = (r, sent1)"
    by (cases "handler pf rm env name args sent") auto
  obtain rs sent2 where t: "serve pf rm reqs sent1 = (rs, sent2)"
    by (cases "serve pf rm reqs sent1") auto
  show ?case
  proof (cases i)
    case 0
    with req h t show ?thesis by (auto intro: exI [of _ sent])
  next
    case (Suc j)
    with Cons.prems have "j < length reqs" by simp
    from Cons.IH [OF this, of sent1] Suc req h t show ?thesis by auto
  qed
qed

text \<open>
  Claim C7. A call-tool request that is handled while the token variable is unset or
  empty is answered with the error \<open>RAINDROP_TOKEN is not set\<close>, whatever tool it names
  and wherever it stands in the sequence of requests. The variable is read for each
  request: every request of the sequence is answered, each with what the handler
  returns for it under the value the variable has at that time.
\<close>

theorem missing_token_fails_that_request_only:
  assumes "i < length reqs" and "fst (reqs ! i) = None \<or> fst (reqs ! i) = Some []"
  shows "fst (serve pf rm reqs sent) ! i = Inl (Error ''RAINDROP_TOKEN is not set'')
       \<and> length (fst (serve pf rm reqs sent)) = length reqs
       \<and> (\<forall>j < length reqs. \<exists>sent'.
            fst (serve pf rm reqs sent) ! j
              = fst (handler pf rm (fst (reqs ! j)) (fst (snd (reqs ! j)))
                       (snd (snd (reqs ! j))) sent'))"
proof (intro conjI allI impI)
  from serve_nth [OF assms(1), of pf rm sent] obtain sent' where
    "fst (serve pf rm reqs sent) ! i
       = fst (handler pf rm (fst (reqs ! i)) (fst (snd (reqs ! i))) (snd (snd (reqs ! i))) sent')"
    by blast
  then show "fst (serve pf rm reqs sent) ! i = Inl (Error ''RAINDROP_TOKEN is not set'')"
    using handler_without_token [OF assms(2)] by simp
next
  show "length (fst (serve pf rm reqs sent)) = length reqs" by (rule serve_length)
next
  fix j assume "j < length reqs"
  then show "\<exists>sent'. fst (serve pf rm reqs sent) ! j
              = fst (handler pf rm (fst (reqs ! j)) (fst (snd (reqs ! j)))
                       (snd (snd (reqs ! j))) sent')"
    by (rule serve_nth)
qed


theorem missing_token_fails_that_request_only_witness:
  "(0::nat) < length [(None, ''list-collections'', JObj []),
                      (Some ''test-token'', ''list-collections'', JObj [])]
   \<and> fst ([(None, ''list-collections'', JObj []),
            (Some ''test-token'', ''list-collections'', JObj [])] ! 0) = None
   \<and> fst (serve sample_platform sample_remote
             [(None, ''list-collections'', JObj []),
              (Some ''test-token'', ''list-collections'', JObj [])] []) ! 0
       = Inl (Error ''RAINDROP_TOKEN is not set'')
   \<and> serve sample_platform sample_remote
         [(None, ''list-collections'', JObj []),
          (Some ''test-token'', ''list-collections'', JObj [])] []
       = ([Inl (Error ''RAINDROP_TOKEN is not set''),
           Inr [TextContent ''No collections found.'']],
          [\<lparr>req_url = ''https://api.raindrop.io/rest/v1/collections'', req_method = ''GET'',
            req_headers = [(''Authorization'', ''Bearer test-token''),
                           (''Content-Type'', ''application/json'')],
            req_body = None\<rparr>])"
  using missing_token_fails_that_request_only [of 0
      "[(None, ''list-collections'', JObj []),
        (Some ''test-token'', ''list-collections'', JObj [])]"
      sample_platform sample_remote "[]"]
  by (simp add: handler_defs sample_remote_def collections_text_def RAINDROP_API_BASE_def)










lemma handler_list_result:
  assumes "token \<noteq> []"
    and "\<forall>request. fetch_collections rm request
           = Inr \<lparr>ok = True, statusText = st, json_body = Inr collections\<rparr>"
  shows "\<exists>request. handler pf rm (Some token) ''list-collections'' args sent
     = (Inr [TextContent (collections_text pf collections)], sent @ [request])"
  using assms
  by (auto simp: handler_def dispatch_def listCollections_def makeRequest_def Let_def)

lemma parent_text_cases:
  "parent_text repr parent
     = (case parent of
          None \<Rightarrow> ''None''
        | Some r \<Rightarrow> if parent_id r = Fin 0 then ''None''
                    else Number_toString repr (parent_id r))"
  by (cases parent) (simp_all add: parent_text_def)

lemma collections_text_blocks:
  "collections_text pf collections
     = (if coll_items collections = [] then ''No collections found.''
        else ''Found '' @ decimal (length (coll_items collections)) @ '' collections:'' @ nl
             @ join nl (map (\<lambda>item.
                 nl @ ''Name: '' @ coll_title item @ nl
                 @ ''ID: '' @ Number_toString (number_repr pf) (coll_id item) @ nl
                 @ ''Count: '' @ Number_toString (number_repr pf) (coll_count item)
                 @ '' bookmarks'' @ nl
                 @ ''Parent: ''
                 @ (case coll_parent item of
                      None \<Rightarrow> ''None''
                    | Some r \<Rightarrow> if parent_id r = Fin 0 then ''None''
                                else Number_toString (number_repr pf) (parent_id r))
                 @ nl
                 @ ''Created: '' @ Date_toLocaleString pf (coll_created item) @ nl
                 @ ''---'') (coll_items collections)))"
proof -
  have "formatCollection pf = (\<lambda>item.
                 nl @ ''Name: '' @ coll_title item @ nl
                 @ ''ID: '' @ Number_toString (number_repr pf) (coll_id item) @ nl
                 @ ''Count: '' @ Number_toString (number_repr pf) (coll_count item)
                 @ '' bookmarks'' @ nl
                 @ ''Parent: ''
                 @ (case coll_parent item of
                      None \<Rightarrow> ''None''
                    | Some r \<Rightarrow> if parent_id r = Fin 0 then ''None''
                                else Number_toString (number_repr pf) (parent_id r))
                 @ nl
                 @ ''Created: '' @ Date_toLocaleString pf (coll_created item) @ nl
                 @ ''---'')"
    by (rule ext) (simp add: formatCollection_def parent_text_cases)
  then show ?thesis by (simp add: collections_text_def)
qed

text \<open>
  Claim C9. The result of list-collections is the header and one block per collection,
  whose parent line shows \<open>None\<close> both when the collection has no parent reference and
  when the reference has the id 0. So a collection \<open>c\<close> of the response whose parent id is
  0 is displayed with the line \<open>Parent: None\<close>, and the result is the same text as when
  \<open>c\<close> comes without a parent reference.
\<close>

theorem parent_zero_is_shown_as_none:
  assumes "token \<noteq> []"
    and "\<forall>request. fetch_collections rm request
           = Inr \<lparr>ok = True, statusText = st, json_body = Inr collections\<rparr>"
    and "c \<in> set (coll_items collections)"
    and "coll_parent c = Some \<lparr>parent_id = Fin 0\<rparr>"
    and "\<forall>request. fetch_collections rm' request
           = Inr \<lparr>ok = True, statusText = st',
                  json_body = Inr \<lparr>coll_items =
                    map (\<lambda>item. if item = c then item\<lparr>coll_parent := None\<rparr> else item)
                      (coll_items collections)\<rparr>\<rparr>"
  shows "\<exists>t request.
     handler pf rm (Some token) ''list-collections'' args sent
       = (Inr [TextContent t], sent @ [request])
     \<and> t = ''Found '' @ decimal (length (coll_items collections)) @ '' collections:'' @ nl
           @ join nl (map (\<lambda>item.
               nl @ ''Name: '' @ coll_title item @ nl
               @ ''ID: '' @ Number_toString (number_repr pf) (coll_id item) @ nl
               @ ''Count: '' @ Number_toString (number_repr pf) (coll_count item)
               @ '' bookmarks'' @ nl
               @ ''Parent: ''
               @ (case coll_parent item of
                    None \<Rightarrow> ''None''
                  | Some r \<Rightarrow> if parent_id r = Fin 0 then ''None''
                              else Number_toString (number_repr pf) (parent_id r))
               @ nl
               @ ''Created: '' @ Date_toLocaleString pf (coll_created item) @ nl
               @ ''---'') (coll_items collections))
     \<and> sublist (nl @ ''Name: '' @ coll_title c @ nl
                @ ''ID: '' @ Number_toString (number_repr pf) (coll_id c) @ nl
                @ ''Count: '' @ Number_toString (number_repr pf) (coll_count c)
                @ '' bookmarks'' @ nl
                @ ''Parent: None'' @ nl
                @ ''Created: '' @ Date_toLocaleString pf (coll_created c) @ nl
                @ ''---'') t
     \<and> fst (handler pf rm' (Some token) ''list-collections'' args sent) = Inr [TextContent t]"
proof -
  define block :: "Collection \<Rightarrow> string" where "block = (\<lambda>item.
               nl @ ''Name: '' @ coll_title item @ nl
               @ ''ID: '' @ Number_toString (number_repr pf) (coll_id item) @ nl
               @ ''Count: '' @ Number_toString (number_repr pf) (coll_count item)
               @ '' bookmarks'' @ nl
               @ ''Parent: ''
               @ (case coll_parent item of
                    None \<Rightarrow> ''None''
                  | Some r \<Rightarrow> if parent_id r = Fin 0 then ''None''
                              else Number_toString (number_repr pf) (parent_id r))
               @ nl
               @ ''Created: '' @ Date_toLocaleString pf (coll_created item) @ nl
               @ ''---'')"
  define t where "t = ''Found '' @ decimal (length (coll_items collections))
           @ '' collections:'' @ nl @ join nl (map block (coll_items collections))"
  define dropped where "dropped = \<lparr>coll_items =
                    map (\<lambda>item. if item = c then item\<lparr>coll_parent := None\<rparr> else item)
                      (coll_items collections)\<rparr>"
  have shape: "collections_text pf cs
     = (if coll_items cs = [] then ''No collections found.''
        else ''Found '' @ decimal (length (coll_items cs)) @ '' collections:'' @ nl
             @ join nl (map block (coll_items cs)))" for cs
    unfolding block_def by (rule collections_text_blocks)
  from assms(3) have nonempty: "coll_items collections \<noteq> []" by auto
  from handler_list_result [OF assms(1,2), of pf args sent] obtain request where
    "handler pf rm (Some token) ''list-collections'' args sent
       = (Inr [TextContent (collections_text pf collections)], sent @ [request])"
    by blast
  then have shown: "handler pf rm (Some token) ''list-collections'' args sent
       = (Inr [TextContent t], sent @ [request])"
    using nonempty by (simp add: shape t_def)
  have "block c \<in> set (map block (coll_items collections))"
    using assms(3) by simp
  then have "sublist (block c) (join nl (map block (coll_items collections)))"
    by (rule sublist_join)
  then have "sublist (block c) t"
    unfolding t_def by (intro sublist_prepend)
  moreover have "block c = nl @ ''Name: '' @ coll_title c @ nl
                @ ''ID: '' @ Number_toString (number_repr pf) (coll_id c) @ nl
                @ ''Count: '' @ Number_toString (number_repr pf) (coll_count c)
                @ '' bookmarks'' @ nl
                @ ''Parent: None'' @ nl
                @ ''Created: '' @ Date_toLocaleString pf (coll_created c) @ nl
                @ ''---''"
    using assms(4) by (simp add: block_def)
  ultimately have part: "sublist (nl @ ''Name: '' @ coll_title c @ nl
                @ ''ID: '' @ Number_toString (number_repr pf) (coll_id c) @ nl
                @ ''Count: '' @ Number_toString (number_repr pf) (coll_count c)
                @ '' bookmarks'' @ nl
                @ ''Parent: None'' @ nl
                @ ''Created: '' @ Date_toLocaleString pf (coll_created c) @ nl
                @ ''---'') t"
    by simp
  have same_block: "block (if item = c then item\<lparr>coll_parent := None\<rparr> else item) = block item"
    for item
    using assms(4) by (simp add: block_def)
  have "map block (coll_items dropped) = map block (coll_items collections)"
    using same_block by (simp add: dropped_def comp_def)
  moreover have "length (coll_items dropped) = length (coll_items collections)"
    by (simp add: dropped_def)
  moreover have "coll_items dropped \<noteq> []"
    using nonempty by (simp add: dropped_def)
  ultimately have "collections_text pf dropped = t"
    by (simp add: shape t_def)
  moreover from handler_list_result [OF assms(1,5), of pf args sent] obtain request' where
    "handler pf rm' (Some token) ''list-collections'' args sent
       = (Inr [TextContent (collections_text pf dropped)], sent @ [request'])"
    unfolding dropped_def by blast
  ultimately have same: "fst (handler pf rm' (Some token) ''list-collections'' args sent)
      = Inr [TextContent t]"
    by simp
  from shown part same show ?thesis
    unfolding t_def block_def by blast
qed

theorem parent_zero_is_shown_as_none_witness:
  "''test-token'' \<noteq> []
   \<and> sample_collection \<in> set (coll_items \<lparr>coll_items = [sample_collection]\<rparr>)
   \<and> coll_parent sample_collection = Some \<lparr>parent_id = Fin 0\<rparr>
   \<and> (\<exists>request.
        handler sample_platform (collections_remote \<lparr>coll_items = [sample_collection]\<rparr>)
          (Some ''test-token'') ''list-collections'' (JObj []) []
        = (Inr [TextContent
                 (''Found 1 collections:'' @ nl @ nl
                  @ ''Name: Test Collection'' @ nl
                  @ ''ID: 1'' @ nl
                  @ ''Count: 5 bookmarks'' @ nl
                  @ ''Parent: None'' @ nl
                  @ ''Created: 2024-03-20T00:00:00.000Z'' @ nl
                  @ ''---'')],
           [] @ [request]))
   \<and> fst (handler sample_platform
            (collections_remote \<lparr>coll_items = [sample_collection\<lparr>coll_parent := None\<rparr>]\<rparr>)
            (Some ''test-token'') ''list-collections'' (JObj []) [])
     = Inr [TextContent
             (''Found 1 collections:'' @ nl @ nl
              @ ''Name: Test Collection'' @ nl
              @ ''ID: 1'' @ nl
              @ ''Count: 5 bookmarks'' @ nl
              @ ''Parent: None'' @ nl
              @ ''Created: 2024-03-20T00:00:00.000Z'' @ nl
              @ ''---'')]"
proof -
  have tok: "''test-token'' \<noteq> []" by simp
  let ?collections = "\<lparr>coll_items = [sample_collection]\<rparr>"
  have fetched: "\<forall>request. fetch_collections (collections_remote ?collections) request
           = Inr \<lparr>ok = True, statusText = ''OK'', json_body = Inr ?collections\<rparr>"
    by (simp add: collections_remote_def)
  have member: "sample_collection \<in> set (coll_items ?collections)" by simp
  have zero: "coll_parent sample_collection = Some \<lparr>parent_id = Fin 0\<rparr>"
    by (simp add: sample_collection_def)
  have fetched': "\<forall>request. fetch_collections
        (collections_remote \<lparr>coll_items = [sample_collection\<lparr>coll_parent := None\<rparr>]\<rparr>) request
           = Inr \<lparr>ok = True, statusText = ''OK'',
                  json_body = Inr \<lparr>coll_items =
                    map (\<lambda>item. if item = sample_collection
                                then item\<lparr>coll_parent := None\<rparr> else item)
                      (coll_items ?collections)\<rparr>\<rparr>"
    by (simp add: collections_remote_def)
  have five: "Number_toString repr (Fin 5) = ''5''" for repr
    by (simp add: Number_toString_def decimal.simps digit_char_def)
  have "(\<exists>request.
        handler sample_platform (collections_remote ?collections)
          (Some ''test-token'') ''list-collections'' (JObj []) []
        = (Inr [TextContent
                 (''Found 1 collections:'' @ nl @ nl
                  @ ''Name: Test Collection'' @ nl
                  @ ''ID: 1'' @ nl
                  @ ''Count: 5 bookmarks'' @ nl
                  @ ''Parent: None'' @ nl
                  @ ''Created: 2024-03-20T00:00:00.000Z'' @ nl
                  @ ''---'')],
           [] @ [request]))
   \<and> fst (handler sample_platform
            (collections_remote \<lparr>coll_items = [sample_collection\<lparr>coll_parent := None\<rparr>]\<rparr>)
            (Some ''test-token'') ''list-collections'' (JObj []) [])
     = Inr [TextContent
             (''Found 1 collections:'' @ nl @ nl
              @ ''Name: Test Collection'' @ nl
              @ ''ID: 1'' @ nl
              @ ''Count: 5 bookmarks'' @ nl
              @ ''Parent: None'' @ nl
              @ ''Created: 2024-03-20T00:00:00.000Z'' @ nl
              @ ''---'')]"
    using parent_zero_is_shown_as_none [OF tok fetched member zero fetched',
        of sample_platform "JObj []" "[]"]
    by (auto simp: sample_collection_def sample_platform_def Number_toString_1 five
        decimal.simps digit_char_def)
  with tok member zero show ?thesis by blast
qed

text \<open>
  Claim C10. When the token variable is unset or empty, the handler fails with
  \<open>RAINDROP_TOKEN is not set\<close> for every tool name and every arguments value, also an
  unknown tool or invalid arguments, and the list of requests sent is unchanged.
\<close>

theorem token_check_precedes_dispatch:
  assumes "env = None \<or> env = Some []"
  shows "handler pf rm env name args sent = (Inl (Error ''RAINDROP_TOKEN is not set''), sent)"
  using assms by (rule handler_without_token)

theorem token_check_precedes_dispatch_witness:
  "handler sample_platform sample_remote None ''no-such-tool'' JUndefined []
     = (Inl (Error ''RAINDROP_TOKEN is not set''), [])
   \<and> handler sample_platform sample_remote (Some ''test-token'') ''no-such-tool'' JUndefined []
     = (Inl (Error ''Unknown tool: no-such-tool''), [])
   \<and> handler sample_platform sample_remote (Some []) ''create-bookmark''
        (JObj [(''url'', JNum (Fin 5))]) []
     = (Inl (Error ''RAINDROP_TOKEN is not set''), [])
   \<and> handler sample_platform sample_remote (Some ''test-token'') ''create-bookmark''
        (JObj [(''url'', JNum (Fin 5))]) []
     = (Inl (Error ''Invalid arguments: url: Expected string, received number''), [])"
proof -
  have a: "(None :: string option) = None \<or> None = Some []" by simp
  have b: "Some [] = (None :: string option) \<or> Some [] = Some ([] :: string)" by simp
  show ?thesis
    using token_check_precedes_dispatch [OF a, of sample_platform sample_remote
        "''no-such-tool''" JUndefined "[]"]
      token_check_precedes_dispatch [OF b, of sample_platform sample_remote
        "''create-bookmark''" "JObj [(''url'', JNum (Fin 5))]" "[]"]
    by (simp add: handler_defs CreateBookmarkSchema_def zod_defs format_issue_def
        path_elem_text_def)
qed

text \<open>
  Claim C1, on the code. The page number of the search header is \<open>page ?? 0 + 1\<close>, which
  is 1 when \<open>page\<close> is undefined and \<open>page\<close> itself, not \<open>page + 1\<close>, when it is defined:
  a search with \<open>page = 1\<close> that returns an item is headed \<open>on page 1\<close>, where
  \<open>page + 1\<close> prints as 2.
\<close>

theorem header_shows_requested_page_unchanged:
  "displayed_page None = Fin 1
   \<and> displayed_page (Some p) = p
   \<and> handler sample_platform sample_remote (Some ''test-token'') ''search-bookmarks''
        (JObj [(''query'', JStr ''test''), (''page'', JNum (Fin 1))]) []
     = (Inr [TextContent
              (''Found 30 total bookmarks (showing 1 on page 1):'' @ nl @ nl
               @ ''Title: Test Bookmark'' @ nl
               @ ''URL: https://example.com'' @ nl
               @ ''Tags: No tags'' @ nl
               @ ''Created: 2024-03-20T00:00:00.000Z'' @ nl
               @ ''Last Updated: 2024-03-20T00:00:00.000Z'' @ nl
               @ ''---'')],
        [\<lparr>req_url = ''https://api.raindrop.io/rest/v1/raindrops/0?search=test&page=1'',
          req_method = ''GET'',
          req_headers = [(''Authorization'', ''Bearer test-token''),
                         (''Content-Type'', ''application/json'')],
          req_body = None\<rparr>])
   \<and> Number_toString (number_repr sample_platform) (Fin (1 + 1)) = ''2''"
proof -
  have parsed: "SearchBookmarksSchema (JObj [(''query'', JStr ''test''), (''page'', JNum (Fin 1))])
     = Inr \<lparr>search_query = ''test'', search_tags = None, search_page = Some (Fin 1),
            search_perpage = None, search_sort = None, search_collection = None,
            search_word = None\<rparr>"
    by (simp add: SearchBookmarksSchema_def zod_defs)
  have shown: "search_text sample_platform (Some (Fin 1)) \<lparr>items = [sample_item], count = Fin 30\<rparr>
     = Inr (''Found 30 total bookmarks (showing 1 on page 1):'' @ nl @ nl
               @ ''Title: Test Bookmark'' @ nl
               @ ''URL: https://example.com'' @ nl
               @ ''Tags: No tags'' @ nl
               @ ''Created: 2024-03-20T00:00:00.000Z'' @ nl
               @ ''Last Updated: 2024-03-20T00:00:00.000Z'' @ nl
               @ ''---'')"
    by (simp add: search_text_def formatItem_def format_tags_def length_truthy_def
        sample_item_def sample_platform_def displayed_page_def nullish_def Number_toString_1
        Number_toString_30 decimal.simps digit_char_def)
  have sent: "URLSearchParams_toString [(''search'', ''test''), (''page'', ''1'')]
      = ''search=test&page=1''"
    by (simp add: URLSearchParams_toString_def form_encode_def form_encode_byte_def
        form_safe_def)
  show ?thesis
    by (simp add: displayed_page_def nullish_def handler_defs parsed shown sent
        Number_toString_2 sample_remote_def search_params_def Number_toString_0 Number_toString_1
        RAINDROP_API_BASE_def)
qed

end
